theory Spec2Isabelle
  imports Complex_Main "HOL-Library.Finite_Map"
begin

section \<open>JavaScript values as the client sees them\<close>

text \<open>
  The client (\<^verbatim>\<open>frontend/lib/api.ts\<close>, \<^verbatim>\<open>workspace/video/page.tsx\<close>) works on values
  decoded by \<^verbatim>\<open>res.json()\<close>. A decoded value is null, a boolean, a number, a string, an
  array or an object; reading an absent property gives \<^verbatim>\<open>undefined\<close>, which is a value of
  its own. Numbers decoded from JSON are finite (no NaN, no infinity); they are modelled as
  rationals and the source only compares them and passes them on. An object is a finite
  map from property names to values.
\<close>

datatype jsval =
    JUndefined
  | JNull
  | JBool bool
  | JNum rat
  | JStr string
  | JArr "jsval list"
  | JObj "(string, jsval) fmap"

text \<open>
  Exceptions: \<^verbatim>\<open>new Error(msg)\<close> thrown by the client itself, the \<^verbatim>\<open>TypeError\<close> the
  engine raises on a property read of null or undefined, on a call of something that is
  not a function and on a failed \<^verbatim>\<open>fetch\<close>, and the \<^verbatim>\<open>SyntaxError\<close> of \<^verbatim>\<open>res.json()\<close> on
  a body that is not JSON.
\<close>

datatype error = Error string | TypeError | SyntaxError

definition bind_err :: "error + 'a \<Rightarrow> ('a \<Rightarrow> error + 'b) \<Rightarrow> error + 'b" where
  "bind_err r f = (case r of Inl e \<Rightarrow> Inl e | Inr x \<Rightarrow> f x)"

fun map_err :: "('a \<Rightarrow> error + 'b) \<Rightarrow> 'a list \<Rightarrow> error + 'b list" where
  "map_err f [] = Inr []"
| "map_err f (x # xs) =
     bind_err (f x) (\<lambda>y. bind_err (map_err f xs) (\<lambda>ys. Inr (y # ys)))"

text \<open>Truthiness, as \<^verbatim>\<open>if (v)\<close>, \<^verbatim>\<open>!v\<close>, \<^verbatim>\<open>a || b\<close> and \<^verbatim>\<open>c ? a : b\<close> test it.\<close>

fun js_truthy :: "jsval \<Rightarrow> bool" where
  "js_truthy JUndefined = False"
| "js_truthy JNull = False"
| "js_truthy (JBool b) = b"
| "js_truthy (JNum n) = (n \<noteq> 0)"
| "js_truthy (JStr s) = (s \<noteq> [])"
| "js_truthy (JArr xs) = True"
| "js_truthy (JObj m) = True"

fun nullish :: "jsval \<Rightarrow> bool" where
  "nullish JUndefined = True"
| "nullish JNull = True"
| "nullish v = False"

text \<open>\<^verbatim>\<open>a ?? b\<close> and \<^verbatim>\<open>a || b\<close> (the right operand is a constant wherever the source uses them).\<close>

definition nullish_coalesce :: "jsval \<Rightarrow> jsval \<Rightarrow> jsval" where
  "nullish_coalesce a b = (if nullish a then b else a)"

definition js_or :: "jsval \<Rightarrow> jsval \<Rightarrow> jsval" where
  "js_or a b = (if js_truthy a then a else b)"

text \<open>
  \<^verbatim>\<open>v.k\<close> for the identifiers the source reads (\<^verbatim>\<open>progress\<close>, \<^verbatim>\<open>status\<close>, \<^verbatim>\<open>plates\<close>,
  \<^verbatim>\<open>x1\<close>, ...): a \<^verbatim>\<open>TypeError\<close> on null and undefined, the own property of an object or
  \<^verbatim>\<open>undefined\<close> when it has none, and \<^verbatim>\<open>undefined\<close> on a boolean, number, string or array
  (none of these identifiers is an index, \<^verbatim>\<open>length\<close> or a prototype member).
\<close>

fun get_prop :: "jsval \<Rightarrow> string \<Rightarrow> error + jsval" where
  "get_prop JUndefined k = Inl TypeError"
| "get_prop JNull k = Inl TypeError"
| "get_prop (JObj m) k = Inr (case fmlookup m k of None \<Rightarrow> JUndefined | Some v \<Rightarrow> v)"
| "get_prop v k = Inr JUndefined"

text \<open>\<^verbatim>\<open>v?.k\<close>: \<^verbatim>\<open>undefined\<close> instead of the \<^verbatim>\<open>TypeError\<close>.\<close>

definition get_prop_opt :: "jsval \<Rightarrow> string \<Rightarrow> jsval" where
  "get_prop_opt v k = (case get_prop v k of Inl e \<Rightarrow> JUndefined | Inr x \<Rightarrow> x)"

text \<open>
  \<^verbatim>\<open>a === b\<close>. Primitives compare by value. Arrays and objects compare by reference; the
  two sides of every comparison in the source come from two different \<^verbatim>\<open>res.json()\<close>
  calls (or from an object literal and one such call), so they are never the same
  reference.
\<close>

fun strict_eq :: "jsval \<Rightarrow> jsval \<Rightarrow> bool" where
  "strict_eq JUndefined JUndefined = True"
| "strict_eq JNull JNull = True"
| "strict_eq (JBool a) (JBool b) = (a = b)"
| "strict_eq (JNum a) (JNum b) = (a = b)"
| "strict_eq (JStr a) (JStr b) = (a = b)"
| "strict_eq a b = False"

text \<open>
  The own enumerable properties that \<^verbatim>\<open>{...v}\<close> copies: those of an object, the elements
  of an array and the code units of a string under their decimal indices, and nothing
  for null, undefined, a boolean or a number.
\<close>

fun index_key :: "nat \<Rightarrow> string" where
  "index_key n =
     (if n < 10 then [char_of (48 + n)]
      else index_key (n div 10) @ [char_of (48 + n mod 10)])"

declare index_key.simps [simp del]

fun own_props :: "jsval \<Rightarrow> (string, jsval) fmap" where
  "own_props (JObj m) = m"
| "own_props (JArr xs) = fmap_of_list (zip (map index_key [0..<length xs]) xs)"
| "own_props (JStr s) =
     fmap_of_list (zip (map index_key [0..<length s]) (map (\<lambda>c. JStr [c]) s))"
| "own_props v = fmempty"

section \<open>The HTTP layer the client calls\<close>

text \<open>
  What \<^verbatim>\<open>await fetch(...)\<close> gives: a rejection, or a response with its \<^verbatim>\<open>ok\<close> flag, its
  body as \<^verbatim>\<open>res.text()\<close> reads it and as \<^verbatim>\<open>res.json()\<close> decodes it (an error when the
  body is not JSON).
\<close>

record http_response =
  ok :: bool
  text_body :: string
  json_body :: "error + jsval"

type_synonym fetch_result = "error + http_response"

text \<open>
  \<^verbatim>\<open>API_URL = process.env.NEXT_PUBLIC_BACKEND_URL || "http://localhost:8000"\<close>; the
  environment variable is the only configuration the client reads.
\<close>

definition API_URL :: "string option \<Rightarrow> string" where
  "API_URL env_backend_url =
     (case env_backend_url of
        None \<Rightarrow> ''http://localhost:8000''
      | Some u \<Rightarrow> if u \<noteq> [] then u else ''http://localhost:8000'')"

subsection \<open>\<^verbatim>\<open>getVideoStatus\<close>\<close>

text \<open>
  The object literal \<^verbatim>\<open>{ ...data, progress: data.progress ?? 0 }\<close>: the spread copies the
  payload's properties (nothing for null), then \<^verbatim>\<open>data.progress\<close> is read (a \<^verbatim>\<open>TypeError\<close>
  when the payload is null) and stored under \<^verbatim>\<open>progress\<close>.
\<close>

definition normalize_status :: "jsval \<Rightarrow> error + jsval" where
  "normalize_status data =
     bind_err (get_prop data ''progress'')
       (\<lambda>p. Inr (JObj (fmupd ''progress'' (nullish_coalesce p (JNum 0)) (own_props data))))"

definition getVideoStatus :: "string option \<Rightarrow> fetch_result \<Rightarrow> error + jsval" where
  "getVideoStatus env_backend_url fetched =
     (if API_URL env_backend_url = [] then Inl (Error ''Backend URL not configured'')
      else case fetched of
        Inl e \<Rightarrow> Inl e
      | Inr res \<Rightarrow>
          if \<not> ok res then
            Inl (Error (if text_body res \<noteq> [] then text_body res
                        else ''Failed to fetch video status''))
          else bind_err (json_body res) normalize_status)"

subsection \<open>\<^verbatim>\<open>inferImage\<close>\<close>

datatype task = vehicle_detect | plate_recognize

text \<open>\<^verbatim>\<open>[b.x1, b.y1, b.x2, b.y2]\<close>, each read raising on a null or undefined \<^verbatim>\<open>b\<close>.\<close>

definition bbox_array :: "jsval \<Rightarrow> error + jsval" where
  "bbox_array b =
     bind_err (get_prop b ''x1'') (\<lambda>x1.
     bind_err (get_prop b ''y1'') (\<lambda>y1.
     bind_err (get_prop b ''x2'') (\<lambda>x2.
     bind_err (get_prop b ''y2'') (\<lambda>y2.
       Inr (JArr [x1, y1, x2, y2])))))"

text \<open>
  The callback of \<^verbatim>\<open>data.raw_meta.vehicles.map\<close>:
  \<^verbatim>\<open>{ bbox: [v.bbox_vehicle.x1, ...], score: v.confidence, class_id: v.class_id }\<close>.
\<close>

definition vehicle_detection :: "jsval \<Rightarrow> error + jsval" where
  "vehicle_detection v =
     bind_err (get_prop v ''bbox_vehicle'') (\<lambda>bv.
     bind_err (bbox_array bv) (\<lambda>bbox.
     bind_err (get_prop v ''confidence'') (\<lambda>c.
     bind_err (get_prop v ''class_id'') (\<lambda>cid.
       Inr (JObj (fmap_of_list
         [(''bbox'', bbox), (''score'', c), (''class_id'', cid)]))))))"

text \<open>
  The callback of \<^verbatim>\<open>data.plates.map\<close>: the plate box when \<^verbatim>\<open>p.bbox_plate\<close> is truthy,
  else the vehicle box when \<^verbatim>\<open>p.bbox_vehicle\<close> is truthy, else \<^verbatim>\<open>[0,0,0,0]\<close>;
  \<^verbatim>\<open>score: p.confidence || 0\<close>; \<^verbatim>\<open>class_id: 0\<close>.
\<close>

definition plate_detection :: "jsval \<Rightarrow> error + jsval" where
  "plate_detection p =
     bind_err (get_prop p ''bbox_plate'') (\<lambda>bp.
     bind_err
       (if js_truthy bp then bbox_array bp
        else bind_err (get_prop p ''bbox_vehicle'') (\<lambda>bv.
          if js_truthy bv then bbox_array bv
          else Inr (JArr [JNum 0, JNum 0, JNum 0, JNum 0])))
       (\<lambda>bbox.
     bind_err (get_prop p ''confidence'') (\<lambda>c.
       Inr (JObj (fmap_of_list
         [(''bbox'', bbox), (''score'', js_or c (JNum 0)), (''class_id'', JNum 0)])))))"

text \<open>
  \<^verbatim>\<open>v.map(f)\<close> on a truthy \<^verbatim>\<open>v\<close>: the elementwise image of an array (the first exception of
  \<^verbatim>\<open>f\<close> ends it); anything else has no callable \<^verbatim>\<open>map\<close>, which is a \<^verbatim>\<open>TypeError\<close>.
\<close>

fun js_array_map :: "(jsval \<Rightarrow> error + jsval) \<Rightarrow> jsval \<Rightarrow> error + jsval" where
  "js_array_map f (JArr xs) = bind_err (map_err f xs) (\<lambda>ys. Inr (JArr ys))"
| "js_array_map f v = Inl TypeError"

text \<open>
  The \<^verbatim>\<open>detections\<close> variable: \<^verbatim>\<open>[]\<close>, replaced by the vehicles of \<^verbatim>\<open>raw_meta\<close> when the
  task is \<^verbatim>\<open>vehicle_detect\<close> and \<^verbatim>\<open>data.raw_meta?.vehicles\<close> is truthy (\<^verbatim>\<open>&&\<close> reads
  \<^verbatim>\<open>data.raw_meta\<close> only for that task), else by the plates when \<^verbatim>\<open>data.plates\<close> is
  truthy.
\<close>

definition plates_branch :: "jsval \<Rightarrow> error + jsval" where
  "plates_branch data =
     bind_err (get_prop data ''plates'') (\<lambda>ps.
       if js_truthy ps then js_array_map plate_detection ps else Inr (JArr []))"

definition detections_of :: "task \<Rightarrow> jsval \<Rightarrow> error + jsval" where
  "detections_of t data =
     (if t = vehicle_detect then
        bind_err (get_prop data ''raw_meta'') (\<lambda>rm.
          let vs = (if nullish rm then JUndefined else get_prop_opt rm ''vehicles'')
          in if js_truthy vs then js_array_map vehicle_detection vs
             else plates_branch data)
      else plates_branch data)"

text \<open>
  \<^verbatim>\<open>transformedData\<close>: the four computed properties first, the spread of the payload
  last, so that a property of the payload with one of the four names replaces the
  computed one.
\<close>

definition transformedData :: "task \<Rightarrow> jsval \<Rightarrow> error + jsval" where
  "transformedData t data =
     bind_err (detections_of t data) (\<lambda>detections.
     bind_err (get_prop data ''task'') (\<lambda>tk.
     bind_err (get_prop data (if t = vehicle_detect then ''vehicle_count'' else ''plate_count''))
       (\<lambda>cnt.
     bind_err (get_prop data ''image_url'') (\<lambda>url.
       Inr (JObj (fmap_of_list
              [(''task'', tk), (''count'', cnt), (''detections'', detections),
               (''storage_url'', url)]
            ++\<^sub>f own_props data))))))"

text \<open>
  \<^verbatim>\<open>inferImage(file, task, roi)\<close>: the file, the task and the region of interest go into
  the request; what the function returns depends on the response alone.
\<close>

definition inferImage :: "string option \<Rightarrow> task \<Rightarrow> fetch_result \<Rightarrow> error + jsval" where
  "inferImage env_backend_url t fetched =
     (if API_URL env_backend_url = [] then Inl (Error ''Backend URL not configured'')
      else case fetched of
        Inl e \<Rightarrow> Inl e
      | Inr res \<Rightarrow>
          if \<not> ok res then
            Inl (Error (if text_body res \<noteq> [] then text_body res
                        else ''Image inference failed''))
          else bind_err (json_body res) (transformedData t))"

subsection \<open>\<^verbatim>\<open>inferVideo\<close>\<close>

definition inferVideo :: "string option \<Rightarrow> fetch_result \<Rightarrow> error + jsval" where
  "inferVideo env_backend_url fetched =
     (if API_URL env_backend_url = [] then Inl (Error ''Backend URL not configured'')
      else case fetched of
        Inl e \<Rightarrow> Inl e
      | Inr res \<Rightarrow>
          if \<not> ok res then
            Inl (Error (if text_body res \<noteq> [] then text_body res
                        else ''Video inference failed''))
          else json_body res)"

section \<open>The video workspace page\<close>

text \<open>\<^verbatim>\<open>const MAX_VIDEO_SIZE = 200 * 1024 * 1024; // 200MB\<close>\<close>

definition MAX_VIDEO_SIZE :: nat where
  "MAX_VIDEO_SIZE = 200 * 1024 * 1024"

text \<open>
  The \<^verbatim>\<open>STATUS_LABELS\<close> table, an object with eight keys. (The \<^verbatim>\<open>JobStatus\<close> type that
  names the same eight strings exists for the type checker only; no value is checked
  against it when the page runs.)
\<close>

definition STATUS_LABELS :: "(string \<times> string) list" where
  "STATUS_LABELS =
     [(''upload_received'', ''Uploading video''),
      (''video_precheck'', ''Validating video''),
      (''processing'', ''Processing frames''),
      (''processing_done'', ''Finalizing processing''),
      (''reencoding'', ''Re-encoding video''),
      (''uploading'', ''Uploading output''),
      (''completed'', ''Completed''),
      (''failed'', ''Failed'')]"

text \<open>
  The page's state: the \<^verbatim>\<open>useState\<close> cells, the interval timer behind
  \<^verbatim>\<open>pollingRef.current\<close>, and the requests the page has issued so far. \<^verbatim>\<open>null\<close> is
  \<^term>\<open>JNull\<close> in \<^verbatim>\<open>jobId\<close> and \<^verbatim>\<open>result\<close> and \<^term>\<open>None\<close> in \<^verbatim>\<open>error\<close> and in
  \<^verbatim>\<open>selected_file\<close>, the \<^verbatim>\<open>file\<close> cell (\<^verbatim>\<open>file\<close> is a keyword of the prover).

  \<^verbatim>\<open>polling\<close> says that \<^verbatim>\<open>pollingRef.current\<close> holds a live interval timer. The page
  sets the reference and starts the timer together (the effect on \<^verbatim>\<open>jobId\<close>), and clears
  the timer and nulls the reference together (\<^verbatim>\<open>resetJob\<close>, the poll callback); the
  effect's cleanup alone clears without nulling, and it runs with a live timer only when
  the page is unmounted.
\<close>

record video_file =
  file_name :: string
  file_size :: nat

datatype request =
    PostInferVideo video_file task
  | GetVideoStatus jsval
  | PostCancel jsval

text \<open>
  A message shown in the error banner: a string of the source, or the \<^verbatim>\<open>message\<close> the
  engine gave a \<^verbatim>\<open>TypeError\<close> or \<^verbatim>\<open>SyntaxError\<close> (never empty, its wording is the engine's).
\<close>

datatype error_text = Text string | EngineMessage error

record page_state =
  selected_file :: "video_file option"
  task :: task
  jobId :: jsval
  result :: jsval
  loading :: bool
  error :: "error_text option"
  canceling :: bool
  polling :: bool
  requests :: "request list"

text \<open>\<^verbatim>\<open>err.message || fallback\<close>\<close>

fun message_or :: "error \<Rightarrow> string \<Rightarrow> error_text" where
  "message_or (Error m) fallback = Text (if m \<noteq> [] then m else fallback)"
| "message_or e fallback = EngineMessage e"

definition resetJob :: "page_state \<Rightarrow> page_state" where
  "resetJob st = st\<lparr>polling := False, jobId := JNull, result := JNull\<rparr>"

text \<open>\<^verbatim>\<open>handleFileChange\<close>, with \<^verbatim>\<open>f = e.target.files?.[0] || null\<close>.\<close>

definition handleFileChange :: "page_state \<Rightarrow> video_file option \<Rightarrow> page_state" where
  "handleFileChange st f =
     (case f of
        Some v \<Rightarrow>
          if file_size v > MAX_VIDEO_SIZE then
            st\<lparr>error := Some (Text ''File size exceeds 200MB limit''), selected_file := None\<rparr>
          else resetJob (st\<lparr>selected_file := f, error := None\<rparr>)
      | None \<Rightarrow> resetJob (st\<lparr>selected_file := f, error := None\<rparr>))"

text \<open>\<^verbatim>\<open>effectiveStatus = jobId ? result?.status ?? "upload_received" : null\<close>\<close>

definition effectiveStatus :: "page_state \<Rightarrow> jsval" where
  "effectiveStatus st =
     (if js_truthy (jobId st)
      then nullish_coalesce
             (if nullish (result st) then JUndefined else get_prop_opt (result st) ''status'')
             (JStr ''upload_received'')
      else JNull)"

text \<open>
  What React accepts as a child of an element: strings and numbers are shown, null,
  undefined and booleans are skipped, an array is a list of children, and a plain object
  makes the render throw ("Objects are not valid as a React child").
\<close>

fun valid_child :: "jsval \<Rightarrow> bool" where
  "valid_child (JObj m) = False"
| "valid_child (JArr xs) = list_all valid_child xs"
| "valid_child v = True"

text \<open>
  \<^verbatim>\<open>STATUS_LABELS[effectiveStatus]\<close> is a label, \<^verbatim>\<open>undefined\<close>, or a member of
  \<^verbatim>\<open>Object.prototype\<close>. The members are functions, which React skips, except under the
  key \<^verbatim>\<open>__proto__\<close>, which gives the prototype itself, a plain object. A value is that key
  when it is the string or an array whose one element is that key.
\<close>

fun proto_key :: "jsval \<Rightarrow> bool" where
  "proto_key (JStr s) = (s = ''__proto__'')"
| "proto_key (JArr [x]) = proto_key x"
| "proto_key v = False"

text \<open>\<^verbatim>\<open>s === "completed" || s === "failed"\<close>\<close>

definition is_terminal :: "jsval \<Rightarrow> bool" where
  "is_terminal s = (strict_eq s (JStr ''completed'') \<or> strict_eq s (JStr ''failed''))"

text \<open>
  Whether the page's render goes through. Values of a response reach the tree only under
  \<^verbatim>\<open>jobId &&\<close>: \<^verbatim>\<open>Job ID: {jobId}\<close>, \<^verbatim>\<open>{effectiveStatus}\<close>,
  \<^verbatim>\<open>{STATUS_LABELS[effectiveStatus]}\<close> in the overlay (drawn unless the status is
  \<^verbatim>\<open>"completed"\<close> or \<^verbatim>\<open>"failed"\<close>), and \<^verbatim>\<open>{result.vehicle_count}\<close> and
  \<^verbatim>\<open>{result.plate_count}\<close> unless they are \<^verbatim>\<open>undefined\<close> (which is a valid child anyway).
  Everything else the page draws is a string, a number or a boolean. A render that throws
  unmounts the page: the cleanup of the effect clears the timer, and an effect that was
  about to run never does.
\<close>

definition renders :: "page_state \<Rightarrow> bool" where
  "renders st =
     (if js_truthy (jobId st) then
        valid_child (jobId st)
        \<and> valid_child (effectiveStatus st)
        \<and> (is_terminal (effectiveStatus st) \<or> \<not> proto_key (effectiveStatus st))
        \<and> valid_child (get_prop_opt (result st) ''vehicle_count'')
        \<and> valid_child (get_prop_opt (result st) ''plate_count'')
      else True)"

text \<open>
  \<^verbatim>\<open>handleRun\<close>, given what the \<^verbatim>\<open>fetch\<close> inside \<^verbatim>\<open>inferVideo\<close> comes back with. Without a
  file it returns before any request. The last update is the effect on \<^verbatim>\<open>jobId\<close>, which
  runs after the render with the new \<^verbatim>\<open>jobId\<close> and the seeded result went through: a
  truthy \<^verbatim>\<open>jobId\<close> then starts the interval timer. When that render throws (a \<^verbatim>\<open>job_id\<close>
  that is an object), the page is unmounted and no timer starts.
\<close>

definition handleRun :: "string option \<Rightarrow> page_state \<Rightarrow> fetch_result \<Rightarrow> page_state" where
  "handleRun env_backend_url st fetched =
     (case selected_file st of
        None \<Rightarrow> st\<lparr>error := Some (Text ''Select a video first'')\<rparr>
      | Some f \<Rightarrow>
          let st1 = (resetJob (st\<lparr>loading := True, error := None\<rparr>))
                      \<lparr>requests := requests st @ [PostInferVideo f (task st)]\<rparr>
          in case bind_err (inferVideo env_backend_url fetched)
                    (\<lambda>resp. get_prop resp ''job_id'') of
               Inr j \<Rightarrow>
                 let st2 = st1\<lparr>jobId := j,
                              result := JObj (fmap_of_list
                                [(''job_id'', j), (''status'', JStr ''upload_received''),
                                 (''progress'', JNum 0)]),
                              loading := False\<rparr>
                 in st2\<lparr>polling := js_truthy j \<and> renders st2\<rparr>
             | Inl e \<Rightarrow>
                 st1\<lparr>error := Some (message_or e ''Failed to start inference''),
                     loading := False\<rparr>)"

text \<open>
  \<^verbatim>\<open>handleCancel\<close>, given what its \<^verbatim>\<open>fetch\<close> comes back with: nothing without a job;
  otherwise the request, whose rejection the \<^verbatim>\<open>catch\<close> swallows and whose response is not
  read, then \<^verbatim>\<open>setCanceling(false)\<close> and \<^verbatim>\<open>resetJob()\<close>. The result is a sum so that a
  thrown exception would show.
\<close>

definition handleCancel :: "page_state \<Rightarrow> fetch_result \<Rightarrow> error + page_state" where
  "handleCancel st fetched =
     (if \<not> js_truthy (jobId st) then Inr st
      else
        let st1 = st\<lparr>canceling := True, requests := requests st @ [PostCancel (jobId st)]\<rparr>;
            st2 = (case fetched of Inl e \<Rightarrow> st1 | Inr res \<Rightarrow> st1)
        in Inr (resetJob (st2\<lparr>canceling := False\<rparr>)))"

text \<open>
  The updater passed to \<^verbatim>\<open>setResult\<close> in the poll callback. \<^verbatim>\<open>prev\<close> is truthy where its
  properties are read and \<^verbatim>\<open>status\<close> is the object \<^verbatim>\<open>getVideoStatus\<close> built, so no read
  raises.
\<close>

definition differs :: "jsval \<Rightarrow> jsval \<Rightarrow> string \<Rightarrow> bool" where
  "differs prev status k = (\<not> strict_eq (get_prop_opt prev k) (get_prop_opt status k))"

definition setResult_poll :: "jsval \<Rightarrow> jsval \<Rightarrow> jsval" where
  "setResult_poll prev status =
     (if \<not> js_truthy prev then status
      else if differs prev status ''status'' then status
      else if differs prev status ''progress'' then status
      else if differs prev status ''annotated_video_url'' then status
      else if differs prev status ''vehicle_count'' then status
      else if differs prev status ''plate_count'' then status
      else prev)"

text \<open>
  One run of the interval callback has two halves, with the \<^verbatim>\<open>await\<close> of the response
  between them. The timer fires: \<^verbatim>\<open>getVideoStatus(jobId)\<close> issues the status request.
\<close>

definition fire_request :: "page_state \<Rightarrow> page_state" where
  "fire_request st = st\<lparr>requests := requests st @ [GetVideoStatus (jobId st)]\<rparr>"

text \<open>
  The response arrives: the \<^verbatim>\<open>setResult\<close> update, and the end of the timer when the status
  is \<^verbatim>\<open>"completed"\<close> or \<^verbatim>\<open>"failed"\<close> (\<^verbatim>\<open>clearInterval(pollingRef.current)\<close>: the timer the
  reference holds at that moment). An exception of \<^verbatim>\<open>getVideoStatus\<close> is caught and
  ignored.
\<close>

definition handle_response :: "string option \<Rightarrow> page_state \<Rightarrow> fetch_result \<Rightarrow> page_state" where
  "handle_response env_backend_url st fetched =
     (case getVideoStatus env_backend_url fetched of
        Inl e \<Rightarrow> st
      | Inr status \<Rightarrow>
          let st1 = st\<lparr>result := setResult_poll (result st) status\<rparr>
          in if is_terminal (get_prop_opt status ''status'')
             then st1\<lparr>polling := False\<rparr>
             else st1)"



text \<open>
  The progress bar, drawn when \<^verbatim>\<open>typeof result?.progress === "number"\<close>: its width in
  percent is \<^verbatim>\<open>Math.min(result.progress, 100)\<close>.
\<close>

definition progress_bar_width :: "jsval \<Rightarrow> rat option" where
  "progress_bar_width res =
     (case (if nullish res then JUndefined else get_prop_opt res ''progress'') of
        JNum p \<Rightarrow> Some (min p 100)
      | _ \<Rightarrow> None)"

text \<open>The state the page mounts with (the initial values of its \<^verbatim>\<open>useState\<close> cells).\<close>

definition initial_state :: page_state where
  "initial_state =
     \<lparr>selected_file = None, task = vehicle_detect, jobId = JNull, result = JNull,
      loading = False, error = None, canceling = False, polling = False, requests = []\<rparr>"

subsection \<open>Firings and responses in any order\<close>

text \<open>
  The callback is \<^verbatim>\<open>async\<close> and the timer does not wait for it: a firing may come while
  earlier requests are still in flight, and responses arrive in any order. A running page
  is its state, the number of status requests in flight, and whether it is still
  mounted.
\<close>

record world =
  page :: page_state
  in_flight :: nat
  mounted :: bool

datatype event = Fire | Deliver fetch_result

text \<open>
  A firing happens only while the timer is live. A response can arrive only for a request
  in flight; on an unmounted page its \<^verbatim>\<open>setResult\<close> changes nothing; otherwise the second
  half of the callback runs and the page renders again, and a render that throws unmounts
  the page and clears the timer.
\<close>

fun step :: "string option \<Rightarrow> world \<Rightarrow> event \<Rightarrow> world" where
  "step env_backend_url w Fire =
     (if mounted w \<and> polling (page w)
      then w\<lparr>page := fire_request (page w), in_flight := Suc (in_flight w)\<rparr>
      else w)"
| "step env_backend_url w (Deliver fetched) =
     (if in_flight w = 0 then w
      else if \<not> mounted w then w\<lparr>in_flight := in_flight w - 1\<rparr>
      else
        let p = handle_response env_backend_url (page w) fetched
        in if renders p then w\<lparr>page := p, in_flight := in_flight w - 1\<rparr>
           else w\<lparr>page := p\<lparr>polling := False\<rparr>, in_flight := in_flight w - 1,
                   mounted := False\<rparr>)"



section \<open>Notions the properties are stated with\<close>

text \<open>The JSON payload a fetch delivers: that of a response that is \<^verbatim>\<open>ok\<close> and decodes.\<close>

definition payload_of :: "fetch_result \<Rightarrow> jsval option" where
  "payload_of fetched =
     (case fetched of
        Inl e \<Rightarrow> None
      | Inr res \<Rightarrow>
          if ok res then (case json_body res of Inl e \<Rightarrow> None | Inr d \<Rightarrow> Some d)
          else None)"

text \<open>A response that is \<^verbatim>\<open>ok\<close> and whose body decodes to the given payload.\<close>

definition ok_json :: "string \<Rightarrow> jsval \<Rightarrow> fetch_result" where
  "ok_json body d = Inr \<lparr>ok = True, text_body = body, json_body = Inr d\<rparr>"

text \<open>A number between 0 and 100 inclusive.\<close>

fun is_percent :: "jsval \<Rightarrow> bool" where
  "is_percent (JNum p) = (0 \<le> p \<and> p \<le> 100)"
| "is_percent v = False"


definition reported_progress :: "jsval \<Rightarrow> jsval" where
  "reported_progress d = nullish_coalesce (get_prop_opt d ''progress'') (JNum 0)"



text \<open>
  A file selection is rejected: no file is selected afterwards and the size error is
  shown.
\<close>

definition rejected :: "page_state \<Rightarrow> bool" where
  "rejected st =
     (selected_file st = None \<and> error st = Some (Text ''File size exceeds 200MB limit''))"

text \<open>
  The rule in the words of the specification, to compare \<^verbatim>\<open>handleFileChange\<close> with: the
  maximum upload size is supplied from outside, and a file strictly larger than it is
  rejected.
\<close>

definition spec_exceeds_limit :: "nat \<Rightarrow> video_file \<Rightarrow> bool" where
  "spec_exceeds_limit max_upload_size f = (file_size f > max_upload_size)"

section \<open>The job state machine\<close>

text \<open>
  The state machine of a video job belongs to the backend, whose code is not among the
  sources; what follows is taken from section 4.2 of the specification.
\<close>

text \<open>Modelled from the spec: the backend's JobState, the nine states of section 4.2.\<close>

datatype JobState =
    UploadReceived
  | VideoPrecheck
  | Processing
  | ProcessingDone
  | Reencoding
  | Uploading
  | Completed
  | Failed
  | Canceled

text \<open>Modelled from the spec: the backend's JobState again, its nine states in a list.\<close>

definition JobState_all :: "JobState list" where
  "JobState_all =
     [UploadReceived, VideoPrecheck, Processing, ProcessingDone, Reencoding, Uploading,
      Completed, Failed, Canceled]"

text \<open>
  Modelled from the spec: the name under which the backend's status endpoint reports a
  state, as section 4.2 writes it.
\<close>

fun JobState_name :: "JobState \<Rightarrow> string" where
  "JobState_name UploadReceived = ''upload_received''"
| "JobState_name VideoPrecheck = ''video_precheck''"
| "JobState_name Processing = ''processing''"
| "JobState_name ProcessingDone = ''processing_done''"
| "JobState_name Reencoding = ''reencoding''"
| "JobState_name Uploading = ''uploading''"
| "JobState_name Completed = ''completed''"
| "JobState_name Failed = ''failed''"
| "JobState_name Canceled = ''canceled''"





section \<open>The geometry of preprocessing\<close>

text \<open>
  The Preprocessor and the GeometryMapper belong to the backend, whose code is not among
  the sources; what follows is taken from section 4.1 of the specification. Coordinates
  are real numbers: the rounding of floating-point arithmetic is not modelled.
\<close>

text \<open>
  Modelled from the spec: the backend's BBox, "four coordinates (x1,y1,x2,y2)"; the
  coordinate space a box lives in is told by where it is used.
\<close>

record bbox =
  bx1 :: real
  by1 :: real
  bx2 :: real
  by2 :: real

text \<open>
  Modelled from the spec: the backend's Transform, "scale factor + pad offsets + ROI
  offset".
\<close>

record transform =
  scale :: real
  padX :: real
  padY :: real
  roiX :: real
  roiY :: real

text \<open>Modelled from the spec: the backend's error \<^verbatim>\<open>InvalidROI\<close> of \<^verbatim>\<open>prepare\<close>.\<close>

datatype prepare_error = InvalidROI

text \<open>
  Modelled from the spec: the backend's padding policy, "center or corner padding -- pick
  one and document"; both are kept, as a parameter.
\<close>

datatype padding = CornerPadding | CenterPadding

text \<open>Modelled from the spec: the backend's clamping of a region, "clamp to frame bounds".\<close>

definition clamp_roi :: "real \<Rightarrow> real \<Rightarrow> bbox \<Rightarrow> bbox" where
  "clamp_roi w h r =
     \<lparr>bx1 = max 0 (min w (bx1 r)), by1 = max 0 (min h (by1 r)),
      bx2 = max 0 (min w (bx2 r)), by2 = max 0 (min h (by2 r))\<rparr>"

text \<open>Modelled from the spec: the area of a region, for the backend's test of "zero area".\<close>

definition area :: "bbox \<Rightarrow> real" where
  "area b = (bx2 b - bx1 b) * (by2 b - by1 b)"

text \<open>
  Modelled from the spec: the backend's \<^verbatim>\<open>prepare(frame, roi?) -> (modelInput, transform)\<close>,
  the transform only. With a region of interest: clamp it, "fail with InvalidROI if the
  clamped region has zero area". Then "resize preserving aspect ratio to fit the model's
  fixed square input size; pad the remainder; record scale, padX, padY". The arguments
  are the padding policy, the side of the model input, the width and height of the frame
  and the region of interest.
\<close>

definition prepare ::
  "padding \<Rightarrow> real \<Rightarrow> real \<Rightarrow> real \<Rightarrow> bbox option \<Rightarrow> prepare_error + transform" where
  "prepare pol side w h roi =
     (let region = (case roi of
                      None \<Rightarrow> \<lparr>bx1 = 0, by1 = 0, bx2 = w, by2 = h\<rparr>
                    | Some r \<Rightarrow> clamp_roi w h r)
      in if roi \<noteq> None \<and> area region = 0 then Inl InvalidROI
         else
           let rw = bx2 region - bx1 region;
               rh = by2 region - by1 region;
               s = min (side / rw) (side / rh)
           in Inr \<lparr>scale = s,
                   padX = (case pol of CornerPadding \<Rightarrow> 0
                                     | CenterPadding \<Rightarrow> (side - rw * s) / 2),
                   padY = (case pol of CornerPadding \<Rightarrow> 0
                                     | CenterPadding \<Rightarrow> (side - rh * s) / 2),
                   roiX = bx1 region, roiY = by1 region\<rparr>)"

text \<open>
  Modelled from the spec: the backend's forward mapping of a box of the original frame
  into the model input, the steps of \<^verbatim>\<open>prepare\<close> applied to a coordinate: crop to the
  region, resize, pad.
\<close>

definition forward :: "transform \<Rightarrow> bbox \<Rightarrow> bbox" where
  "forward t b =
     \<lparr>bx1 = (bx1 b - roiX t) * scale t + padX t, by1 = (by1 b - roiY t) * scale t + padY t,
      bx2 = (bx2 b - roiX t) * scale t + padX t, by2 = (by2 b - roiY t) * scale t + padY t\<rparr>"

text \<open>
  Modelled from the spec: the backend's \<^verbatim>\<open>transform.invert\<close>, "subtract pad, divide by
  scale, add ROI origin offset".
\<close>

definition invert :: "transform \<Rightarrow> bbox \<Rightarrow> bbox" where
  "invert t b =
     \<lparr>bx1 = (bx1 b - padX t) / scale t + roiX t, by1 = (by1 b - padY t) / scale t + roiY t,
      bx2 = (bx2 b - padX t) / scale t + roiX t, by2 = (by2 b - padY t) / scale t + roiY t\<rparr>"

section \<open>Properties of the API client\<close>

lemma API_URL_nonempty: "API_URL e \<noteq> []"
  by (simp add: API_URL_def split: option.splits)

lemma getVideoStatus_cases:
  "getVideoStatus e r =
     (case r of Inl x \<Rightarrow> Inl x
      | Inr res \<Rightarrow> if ok res then bind_err (json_body res) normalize_status
                   else Inl (Error (if text_body res \<noteq> [] then text_body res
                                    else ''Failed to fetch video status'')))"
  by (simp add: getVideoStatus_def API_URL_nonempty split: sum.splits)

lemma getVideoStatus_of_payload:
  "payload_of r = Some d \<Longrightarrow> getVideoStatus e r = normalize_status d"
  by (auto simp: getVideoStatus_cases payload_of_def bind_err_def split: sum.splits if_splits)


lemma normalize_status_obj:
  "normalize_status (JObj m) =
     Inr (JObj (fmupd ''progress'' (reported_progress (JObj m)) m))"
  by (simp add: normalize_status_def bind_err_def reported_progress_def get_prop_opt_def)

lemma payload_of_ok_json: "payload_of (ok_json b d) = Some d"
  by (simp add: payload_of_def ok_json_def)

text \<open>
  C1, as stated: for every JSON payload of the status endpoint, the value
  \<^verbatim>\<open>getVideoStatus\<close> produces has a \<^verbatim>\<open>progress\<close> that is a number between 0 and 100
  inclusive. It fails: a payload that reports 150 is passed through as 150.
\<close>

theorem getVideoStatus_progress_counterexample:
  "getVideoStatus None
       (ok_json [] (JObj (fmap_of_list
          [(''status'', JStr ''processing''), (''progress'', JNum 150)])))
     = Inr (JObj (fmupd ''progress'' (JNum 150) (fmap_of_list
          [(''status'', JStr ''processing''), (''progress'', JNum 150)])))
   \<and> get_prop_opt (JObj (fmupd ''progress'' (JNum 150) (fmap_of_list
          [(''status'', JStr ''processing''), (''progress'', JNum 150)]))) ''progress''
     = JNum 150
   \<and> \<not> is_percent (JNum 150)"
  by (simp add: getVideoStatus_of_payload payload_of_ok_json normalize_status_obj
        reported_progress_def get_prop_opt_def nullish_coalesce_def)

text \<open>
  C1, amended: for every JSON object the status endpoint returns, \<^verbatim>\<open>getVideoStatus\<close>
  produces a value whose \<^verbatim>\<open>progress\<close> is a number between 0 and 100 inclusive exactly
  when the payload's \<^verbatim>\<open>progress\<close> is missing, null, or itself such a number: the client
  fills in 0 and checks no range.
\<close>

theorem getVideoStatus_progress_percent:
  assumes "payload_of r = Some (JObj m)"
  shows "\<exists>s. getVideoStatus e r = Inr s
          \<and> (is_percent (get_prop_opt s ''progress'')
               \<longleftrightarrow> nullish (get_prop_opt (JObj m) ''progress'')
                    \<or> is_percent (get_prop_opt (JObj m) ''progress''))"
  using assms
  by (auto simp: getVideoStatus_of_payload normalize_status_obj reported_progress_def
        get_prop_opt_def nullish_coalesce_def split: option.splits)

theorem getVideoStatus_progress_percent_witness:
  "payload_of (ok_json [] (JObj (fmap_of_list [(''status'', JStr ''upload_received'')])))
     = Some (JObj (fmap_of_list [(''status'', JStr ''upload_received'')]))
   \<and> (\<exists>s. getVideoStatus None
              (ok_json [] (JObj (fmap_of_list [(''status'', JStr ''upload_received'')]))) = Inr s
         \<and> is_percent (get_prop_opt s ''progress''))"
  using getVideoStatus_progress_percent
    [of "ok_json [] (JObj (fmap_of_list [(''status'', JStr ''upload_received'')]))"
        "fmap_of_list [(''status'', JStr ''upload_received'')]" None]
  by (simp add: payload_of_ok_json fmlookup_of_list get_prop_opt_def)

text \<open>
  Whatever progress the page holds, the bar it draws is never wider than 100 percent.
\<close>

lemma progress_bar_width_le: "progress_bar_width res = Some w \<Longrightarrow> w \<le> 100"
  by (auto simp: progress_bar_width_def split: jsval.splits if_splits)

text \<open>
  C9: for every JSON object the status endpoint returns, \<^verbatim>\<open>getVideoStatus\<close> yields an
  object equal to the payload on every field except \<^verbatim>\<open>progress\<close>; a missing or null
  \<^verbatim>\<open>progress\<close> becomes 0, and a numeric \<^verbatim>\<open>progress\<close> (0 included) is passed through
  unchanged.
\<close>

theorem getVideoStatus_frame:
  assumes "payload_of r = Some (JObj m)"
  shows "\<exists>s. getVideoStatus e r = Inr (JObj s)
           \<and> (\<forall>k. k \<noteq> ''progress'' \<longrightarrow> fmlookup s k = fmlookup m k)
           \<and> (fmlookup m ''progress'' = None \<or> fmlookup m ''progress'' = Some JNull
                \<longrightarrow> fmlookup s ''progress'' = Some (JNum 0))
           \<and> (\<forall>p. fmlookup m ''progress'' = Some (JNum p)
                \<longrightarrow> fmlookup s ''progress'' = Some (JNum p))"
  using assms
  by (auto simp: getVideoStatus_of_payload normalize_status_obj reported_progress_def
        get_prop_opt_def nullish_coalesce_def)

theorem getVideoStatus_frame_witness:
  "payload_of (ok_json [] (JObj (fmap_of_list
       [(''status'', JStr ''processing''), (''progress'', JNum 0)])))
     = Some (JObj (fmap_of_list [(''status'', JStr ''processing''), (''progress'', JNum 0)]))
   \<and> (\<exists>s. getVideoStatus None (ok_json [] (JObj (fmap_of_list
              [(''status'', JStr ''processing''), (''progress'', JNum 0)]))) = Inr (JObj s)
         \<and> fmlookup s ''status'' = Some (JStr ''processing'')
         \<and> fmlookup s ''progress'' = Some (JNum 0))"
proof -
  let ?m = "fmap_of_list [(''status'', JStr ''processing''), (''progress'', JNum 0)]"
  have p: "payload_of (ok_json [] (JObj ?m)) = Some (JObj ?m)"
    by (rule payload_of_ok_json)
  from getVideoStatus_frame [OF p, of None] obtain s where
    s: "getVideoStatus None (ok_json [] (JObj ?m)) = Inr (JObj s)"
    and frame: "\<forall>k. k \<noteq> ''progress'' \<longrightarrow> fmlookup s k = fmlookup ?m k"
    and keep: "\<forall>q. fmlookup ?m ''progress'' = Some (JNum q)
                 \<longrightarrow> fmlookup s ''progress'' = Some (JNum q)"
    by blast
  from frame have "fmlookup s ''status'' = Some (JStr ''processing'')" by simp
  moreover from keep have "fmlookup s ''progress'' = Some (JNum 0)" by simp
  ultimately show ?thesis using p s by blast
qed

section \<open>Properties of the video workspace page\<close>

text \<open>
  C6: cancellation is best-effort and idempotent. On an existing job \<^verbatim>\<open>handleCancel\<close>
  never throws and leaves the workspace with no active job, whatever its request comes
  back with (a response or a rejection) and whatever the job's state was (also completed
  or failed); cancelling again changes nothing.
\<close>

theorem handleCancel_best_effort:
  assumes "js_truthy (jobId st)"
  shows "\<exists>st'. handleCancel st fetched = Inr st'
           \<and> jobId st' = JNull \<and> result st' = JNull \<and> \<not> polling st' \<and> \<not> canceling st'
           \<and> effectiveStatus st' = JNull
           \<and> handleCancel st' fetched' = Inr st'"
  using assms
  by (cases fetched) (simp_all add: handleCancel_def resetJob_def effectiveStatus_def Let_def)

theorem handleCancel_best_effort_witness:
  "js_truthy (jobId (initial_state\<lparr>jobId := JStr ''job-1'',
        result := JObj (fmap_of_list
          [(''job_id'', JStr ''job-1''), (''status'', JStr ''completed'')])\<rparr>))
   \<and> (\<exists>st'. handleCancel (initial_state\<lparr>jobId := JStr ''job-1'',
        result := JObj (fmap_of_list
          [(''job_id'', JStr ''job-1''), (''status'', JStr ''completed'')])\<rparr>) (Inl TypeError)
          = Inr st'
         \<and> jobId st' = JNull \<and> result st' = JNull \<and> \<not> polling st')"
proof -
  let ?st = "initial_state\<lparr>jobId := JStr ''job-1'',
        result := JObj (fmap_of_list
          [(''job_id'', JStr ''job-1''), (''status'', JStr ''completed'')])\<rparr>"
  have t: "js_truthy (jobId ?st)" by simp
  from handleCancel_best_effort [OF t, of "Inl TypeError" "Inl TypeError"] show ?thesis
    using t by blast
qed

lemma handleRun_no_file:
  "selected_file st = None \<Longrightarrow>
     handleRun e st fetched = st\<lparr>error := Some (Text ''Select a video first'')\<rparr>"
  by (simp add: handleRun_def)

lemma handleRun_many_no_file:
  "selected_file st = None \<Longrightarrow>
     requests (foldl (handleRun e) st fs) = requests st
     \<and> jobId (foldl (handleRun e) st fs) = jobId st
     \<and> selected_file (foldl (handleRun e) st fs) = None"
  by (induction fs arbitrary: st) (simp_all add: handleRun_no_file)

text \<open>
  C4, as stated, ends: the maximum upload size is externally supplied configuration, not
  hardcoded. It fails: the limit is the literal \<^verbatim>\<open>200 * 1024 * 1024\<close> of the page and
  \<^verbatim>\<open>handleFileChange\<close> reads no configuration. With a maximum of 1 MiB supplied, the rule
  of the specification rejects a file of 2 MiB; the page accepts it.
\<close>

theorem handleFileChange_counterexample:
  "MAX_VIDEO_SIZE = 209715200
   \<and> spec_exceeds_limit 1048576 \<lparr>file_name = ''clip.mp4'', file_size = 2097152\<rparr>
   \<and> \<not> rejected (handleFileChange initial_state
          (Some \<lparr>file_name = ''clip.mp4'', file_size = 2097152\<rparr>))"
  by (simp add: MAX_VIDEO_SIZE_def spec_exceeds_limit_def rejected_def handleFileChange_def
        initial_state_def resetJob_def)

text \<open>
  C4, amended: a selected file is rejected, at once, with the error "File size exceeds
  200MB limit" and no file selected, exactly when it is strictly larger than
  \<^verbatim>\<open>200 * 1024 * 1024\<close> bytes, a constant of the page; after a rejection no run of
  \<^verbatim>\<open>handleRun\<close> issues a request or sets a job; a file of exactly that size is accepted.
\<close>

theorem handleFileChange_limit:
  "(rejected (handleFileChange st (Some f)) \<longleftrightarrow> spec_exceeds_limit (200 * 1024 * 1024) f)
   \<and> (file_size f > 200 * 1024 * 1024 \<longrightarrow>
        (\<forall>fs. requests (foldl (handleRun e) (handleFileChange st (Some f)) fs) = requests st
            \<and> jobId (foldl (handleRun e) (handleFileChange st (Some f)) fs) = jobId st))
   \<and> (file_size f = 200 * 1024 * 1024 \<longrightarrow>
        selected_file (handleFileChange st (Some f)) = Some f
        \<and> error (handleFileChange st (Some f)) = None)"
proof -
  have big: "file_size f > 200 * 1024 * 1024 \<Longrightarrow>
      handleFileChange st (Some f)
        = st\<lparr>error := Some (Text ''File size exceeds 200MB limit''), selected_file := None\<rparr>"
    by (simp add: handleFileChange_def MAX_VIDEO_SIZE_def)
  have small: "\<not> file_size f > 200 * 1024 * 1024 \<Longrightarrow>
      handleFileChange st (Some f) = resetJob (st\<lparr>selected_file := Some f, error := None\<rparr>)"
    by (simp add: handleFileChange_def MAX_VIDEO_SIZE_def)
  have 1: "rejected (handleFileChange st (Some f)) \<longleftrightarrow> spec_exceeds_limit (200 * 1024 * 1024) f"
    by (cases "file_size f > 200 * 1024 * 1024")
       (simp_all add: big small rejected_def spec_exceeds_limit_def resetJob_def)
  have 2: "file_size f > 200 * 1024 * 1024 \<longrightarrow>
        (\<forall>fs. requests (foldl (handleRun e) (handleFileChange st (Some f)) fs) = requests st
            \<and> jobId (foldl (handleRun e) (handleFileChange st (Some f)) fs) = jobId st)"
  proof (intro impI allI)
    fix fs assume b: "file_size f > 200 * 1024 * 1024"
    have "selected_file (handleFileChange st (Some f)) = None" by (simp add: big [OF b])
    from handleRun_many_no_file [OF this, of e fs]
    show "requests (foldl (handleRun e) (handleFileChange st (Some f)) fs) = requests st
            \<and> jobId (foldl (handleRun e) (handleFileChange st (Some f)) fs) = jobId st"
      by (simp add: big [OF b])
  qed
  have 3: "file_size f = 200 * 1024 * 1024 \<longrightarrow>
        selected_file (handleFileChange st (Some f)) = Some f
        \<and> error (handleFileChange st (Some f)) = None"
    by (simp add: small resetJob_def)
  from 1 2 3 show ?thesis by blast
qed

theorem handleFileChange_limit_witness:
  "file_size \<lparr>file_name = ''big.mp4'', file_size = 209715201\<rparr> > 200 * 1024 * 1024
   \<and> rejected (handleFileChange initial_state
        (Some \<lparr>file_name = ''big.mp4'', file_size = 209715201\<rparr>))
   \<and> requests (foldl (handleRun None)
        (handleFileChange initial_state (Some \<lparr>file_name = ''big.mp4'', file_size = 209715201\<rparr>))
        [ok_json [] (JObj (fmap_of_list [(''job_id'', JStr ''job-1'')]))]) = []"
proof -
  let ?f = "\<lparr>file_name = ''big.mp4'', file_size = 209715201\<rparr>"
  note t = handleFileChange_limit [of initial_state ?f None]
  have gt: "file_size ?f > 200 * 1024 * 1024" by simp
  from t have r: "rejected (handleFileChange initial_state (Some ?f))"
    by (simp add: spec_exceeds_limit_def)
  from t gt have "\<forall>fs. requests (foldl (handleRun None)
      (handleFileChange initial_state (Some ?f)) fs) = requests initial_state"
    by blast
  then have "requests (foldl (handleRun None) (handleFileChange initial_state (Some ?f))
      [ok_json [] (JObj (fmap_of_list [(''job_id'', JStr ''job-1'')]))]) = requests initial_state"
    by (rule spec)
  then show ?thesis using gt r by (simp add: initial_state_def)
qed

lemma truthy_not_nullish: "js_truthy v \<Longrightarrow> \<not> nullish v"
  by (cases v) simp_all




























lemma step_fire_live:
  "mounted w \<Longrightarrow> polling (page w) \<Longrightarrow>
     step e w Fire = w\<lparr>page := fire_request (page w), in_flight := Suc (in_flight w)\<rparr>"
  by simp






text \<open>
  The page has a label for every state but \<^verbatim>\<open>canceled\<close>; for that one the overlay's
  \<^verbatim>\<open>STATUS_LABELS[effectiveStatus]\<close> is \<^verbatim>\<open>undefined\<close> and the status is still shown as text.
\<close>

lemma STATUS_LABELS_keys:
  "map fst STATUS_LABELS = map JobState_name (butlast JobState_all)"
  "map_of STATUS_LABELS (JobState_name Canceled) = None"
  by (simp_all add: STATUS_LABELS_def JobState_all_def)





lemma JobState_name_not_proto: "JobState_name s \<noteq> ''__proto__''"
  by (cases s) simp_all



















section \<open>Properties of the image inference client\<close>

lemma get_prop_obj: "get_prop (JObj m) k = Inr (get_prop_opt (JObj m) k)"
  by (simp add: get_prop_opt_def)

lemma get_prop_not_nullish: "\<not> nullish v \<Longrightarrow> get_prop v k = Inr (get_prop_opt v k)"
  by (cases v) (simp_all add: get_prop_opt_def)

lemma inferImage_of_payload:
  "payload_of r = Some d \<Longrightarrow> inferImage e t r = transformedData t d"
  by (auto simp: inferImage_def API_URL_nonempty payload_of_def bind_err_def
        split: sum.splits if_splits)

lemma transformedData_obj:
  "transformedData t (JObj m) =
     bind_err (detections_of t (JObj m)) (\<lambda>detections.
       Inr (JObj (fmap_of_list
              [(''task'', get_prop_opt (JObj m) ''task''),
               (''count'', get_prop_opt (JObj m)
                   (if t = vehicle_detect then ''vehicle_count'' else ''plate_count'')),
               (''detections'', detections),
               (''storage_url'', get_prop_opt (JObj m) ''image_url'')]
            ++\<^sub>f m)))"
  by (simp add: transformedData_def get_prop_obj bind_err_def del: fmap_of_list_simps get_prop.simps)

lemma js_array_map_array: "js_array_map f v = Inr x \<Longrightarrow> \<exists>ds. x = JArr ds"
  by (cases v) (auto simp: bind_err_def split: sum.splits)

lemma plates_branch_array: "plates_branch d = Inr x \<Longrightarrow> \<exists>ds. x = JArr ds"
  by (auto simp: plates_branch_def bind_err_def split: sum.splits if_splits
        dest: js_array_map_array)

lemma detections_of_array: "detections_of t d = Inr x \<Longrightarrow> \<exists>ds. x = JArr ds"
  by (auto simp: detections_of_def bind_err_def Let_def split: sum.splits if_splits
        dest: js_array_map_array plates_branch_array)

lemma lookup_spread:
  "fmlookup (b ++\<^sub>f m) k = (case fmlookup m k of None \<Rightarrow> fmlookup b k | Some v \<Rightarrow> Some v)"
  by (auto simp: fmlookup_dom_iff split: option.splits)



lemma base_lookup:
  "fmlookup (fmap_of_list [(''task'', a), (''count'', b), (''detections'', c), (''storage_url'', d)]) ''count'' = Some b"
  "fmlookup (fmap_of_list [(''task'', a), (''count'', b), (''detections'', c), (''storage_url'', d)]) ''detections'' = Some c"
  "fmlookup (fmap_of_list [(''task'', a), (''count'', b), (''detections'', c), (''storage_url'', d)]) ''storage_url'' = Some d"
  "fmlookup (fmap_of_list [(''task'', a), (''count'', b), (''detections'', c), (''storage_url'', d)]) ''vehicle_count'' = None"
  "fmlookup (fmap_of_list [(''task'', a), (''count'', b), (''detections'', c), (''storage_url'', d)]) ''plate_count'' = None"
  "fmlookup (fmap_of_list [(''task'', a), (''count'', b), (''detections'', c), (''storage_url'', d)]) ''image_url'' = None"
  by simp_all

lemma transformedData_Inr:
  assumes "transformedData t (JObj m) = Inr res"
  shows "\<exists>ds. res = JObj (fmap_of_list
              [(''task'', get_prop_opt (JObj m) ''task''),
               (''count'', get_prop_opt (JObj m)
                   (if t = vehicle_detect then ''vehicle_count'' else ''plate_count'')),
               (''detections'', JArr ds),
               (''storage_url'', get_prop_opt (JObj m) ''image_url'')]
            ++\<^sub>f m)
          \<and> detections_of t (JObj m) = Inr (JArr ds)"
proof (cases "detections_of t (JObj m)")
  case (Inl x)
  with assms show ?thesis by (simp only: transformedData_obj bind_err_def sum.case) simp
next
  case (Inr dets)
  then obtain ds where "dets = JArr ds" by (auto dest: detections_of_array)
  with Inr assms show ?thesis
    by (simp only: transformedData_obj bind_err_def sum.case) blast
qed


lemma spread_keeps: "fmlookup m k = Some v \<Longrightarrow> fmlookup (b ++\<^sub>f m) k = Some v"
  by (simp add: fmdomI)

lemma get_prop_opt_obj:
  "get_prop_opt (JObj s) k = (case fmlookup s k of None \<Rightarrow> JUndefined | Some v \<Rightarrow> v)"
  by (simp add: get_prop_opt_def)

lemma spread_alias:
  assumes "fmlookup m k1 = None" and "fmlookup b k1 = Some (get_prop_opt (JObj m) k2)"
    and "fmlookup b k2 = None"
  shows "get_prop_opt (JObj (b ++\<^sub>f m)) k1 = get_prop_opt (JObj (b ++\<^sub>f m)) k2"
proof -
  have 1: "fmlookup (b ++\<^sub>f m) k1 = Some (get_prop_opt (JObj m) k2)"
    by (simp only: lookup_spread assms option.case)
  have 2: "fmlookup (b ++\<^sub>f m) k2 = fmlookup m k2"
    by (cases "fmlookup m k2") (simp_all only: lookup_spread assms option.case)
  have "get_prop_opt (JObj (b ++\<^sub>f m)) k1 = get_prop_opt (JObj m) k2"
    by (simp only: get_prop_opt_obj [of "b ++\<^sub>f m"] 1 option.case)
  also have "\<dots> = get_prop_opt (JObj (b ++\<^sub>f m)) k2"
    by (simp only: get_prop_opt_obj 2)
  finally show ?thesis .
qed

text \<open>
  C3, amended: for every \<^verbatim>\<open>ok\<close> response to \<^verbatim>\<open>POST /infer/image\<close> whose body is a JSON
  object, a result the client delivers is an object that carries over every field of the
  payload (so \<^verbatim>\<open>vehicle_count\<close>, \<^verbatim>\<open>plate_count\<close> and \<^verbatim>\<open>image_url\<close> as far as the
  backend sent them); unless the payload has a field of that name itself, its
  \<^verbatim>\<open>detections\<close> is an array, its \<^verbatim>\<open>count\<close> equals its \<^verbatim>\<open>vehicle_count\<close> when the task is
  \<^verbatim>\<open>vehicle_detect\<close> and its \<^verbatim>\<open>plate_count\<close> when the task is \<^verbatim>\<open>plate_recognize\<close>, and its
  \<^verbatim>\<open>storage_url\<close> equals its \<^verbatim>\<open>image_url\<close>.
\<close>

theorem inferImage_result:
  assumes "payload_of r = Some (JObj m)" and "inferImage e t r = Inr res"
  shows "\<exists>s. res = JObj s
           \<and> (\<forall>k v. fmlookup m k = Some v \<longrightarrow> fmlookup s k = Some v)
           \<and> (fmlookup m ''detections'' = None \<longrightarrow> (\<exists>ds. fmlookup s ''detections'' = Some (JArr ds)))
           \<and> (fmlookup m ''count'' = None \<longrightarrow>
                get_prop_opt res ''count''
                  = get_prop_opt res (if t = vehicle_detect then ''vehicle_count'' else ''plate_count''))
           \<and> (fmlookup m ''storage_url'' = None \<longrightarrow>
                get_prop_opt res ''storage_url'' = get_prop_opt res ''image_url'')"
proof -
  from assms have "transformedData t (JObj m) = Inr res"
    by (simp add: inferImage_of_payload)
  then obtain ds where res: "res = JObj (fmap_of_list
              [(''task'', get_prop_opt (JObj m) ''task''),
               (''count'', get_prop_opt (JObj m)
                   (if t = vehicle_detect then ''vehicle_count'' else ''plate_count'')),
               (''detections'', JArr ds),
               (''storage_url'', get_prop_opt (JObj m) ''image_url'')]
            ++\<^sub>f m)" (is "res = JObj (?b ++\<^sub>f m)")
    using transformedData_Inr by blast
  have 1: "\<forall>k v. fmlookup m k = Some v \<longrightarrow> fmlookup (?b ++\<^sub>f m) k = Some v"
    by (intro allI impI) (rule spread_keeps)
  have 2: "fmlookup m ''detections'' = None \<longrightarrow>
             (\<exists>ds. fmlookup (?b ++\<^sub>f m) ''detections'' = Some (JArr ds))"
  proof
    assume n: "fmlookup m ''detections'' = None"
    have "fmlookup (?b ++\<^sub>f m) ''detections'' = Some (JArr ds)"
      by (simp only: lookup_spread n option.case base_lookup)
    then show "\<exists>ds. fmlookup (?b ++\<^sub>f m) ''detections'' = Some (JArr ds)" ..
  qed
  have 3: "fmlookup m ''count'' = None \<longrightarrow>
             get_prop_opt (JObj (?b ++\<^sub>f m)) ''count''
               = get_prop_opt (JObj (?b ++\<^sub>f m))
                   (if t = vehicle_detect then ''vehicle_count'' else ''plate_count'')"
  proof (cases t)
    case vehicle_detect
    show ?thesis
      by (simp only: vehicle_detect simp_thms if_True) (intro impI spread_alias base_lookup)
  next
    case plate_recognize
    show ?thesis
      by (simp only: plate_recognize task.distinct simp_thms if_False) (intro impI spread_alias base_lookup)
  qed
  have 4: "fmlookup m ''storage_url'' = None \<longrightarrow>
             get_prop_opt (JObj (?b ++\<^sub>f m)) ''storage_url''
               = get_prop_opt (JObj (?b ++\<^sub>f m)) ''image_url''"
    by (intro impI spread_alias base_lookup)
  show ?thesis
    unfolding res by (rule exI [of _ "?b ++\<^sub>f m"]) (intro conjI refl 1 2 3 4)
qed


lemma bbox_array_total:
  "\<not> nullish b \<Longrightarrow>
     bbox_array b = Inr (JArr [get_prop_opt b ''x1'', get_prop_opt b ''y1'',
                              get_prop_opt b ''x2'', get_prop_opt b ''y2''])"
  by (simp add: bbox_array_def get_prop_not_nullish bind_err_def)

lemma plate_bbox_total:
  "\<not> nullish p \<Longrightarrow>
     (if js_truthy (get_prop_opt p ''bbox_plate'') then bbox_array (get_prop_opt p ''bbox_plate'')
      else bind_err (get_prop p ''bbox_vehicle'') (\<lambda>bv.
          if js_truthy bv then bbox_array bv
          else Inr (JArr [JNum 0, JNum 0, JNum 0, JNum 0])))
     = Inr (if js_truthy (get_prop_opt p ''bbox_plate'')
            then JArr [get_prop_opt (get_prop_opt p ''bbox_plate'') ''x1'',
                       get_prop_opt (get_prop_opt p ''bbox_plate'') ''y1'',
                       get_prop_opt (get_prop_opt p ''bbox_plate'') ''x2'',
                       get_prop_opt (get_prop_opt p ''bbox_plate'') ''y2'']
            else if js_truthy (get_prop_opt p ''bbox_vehicle'')
            then JArr [get_prop_opt (get_prop_opt p ''bbox_vehicle'') ''x1'',
                       get_prop_opt (get_prop_opt p ''bbox_vehicle'') ''y1'',
                       get_prop_opt (get_prop_opt p ''bbox_vehicle'') ''x2'',
                       get_prop_opt (get_prop_opt p ''bbox_vehicle'') ''y2'']
            else JArr [JNum 0, JNum 0, JNum 0, JNum 0])"
  by (simp add: get_prop_not_nullish bind_err_def bbox_array_total truthy_not_nullish)

lemma plate_detection_total:
  assumes "\<not> nullish p"
  shows "\<exists>bbox. plate_detection p =
           Inr (JObj (fmap_of_list
             [(''bbox'', bbox), (''score'', js_or (get_prop_opt p ''confidence'') (JNum 0)),
              (''class_id'', JNum 0)]))
         \<and> (\<not> js_truthy (get_prop_opt p ''bbox_plate'')
              \<and> \<not> js_truthy (get_prop_opt p ''bbox_vehicle'')
              \<longrightarrow> bbox = JArr [JNum 0, JNum 0, JNum 0, JNum 0])"
proof -
  let ?bb = "if js_truthy (get_prop_opt p ''bbox_plate'')
            then JArr [get_prop_opt (get_prop_opt p ''bbox_plate'') ''x1'',
                       get_prop_opt (get_prop_opt p ''bbox_plate'') ''y1'',
                       get_prop_opt (get_prop_opt p ''bbox_plate'') ''x2'',
                       get_prop_opt (get_prop_opt p ''bbox_plate'') ''y2'']
            else if js_truthy (get_prop_opt p ''bbox_vehicle'')
            then JArr [get_prop_opt (get_prop_opt p ''bbox_vehicle'') ''x1'',
                       get_prop_opt (get_prop_opt p ''bbox_vehicle'') ''y1'',
                       get_prop_opt (get_prop_opt p ''bbox_vehicle'') ''x2'',
                       get_prop_opt (get_prop_opt p ''bbox_vehicle'') ''y2'']
            else JArr [JNum 0, JNum 0, JNum 0, JNum 0]"
  have e1: "plate_detection p =
      bind_err
       (if js_truthy (get_prop_opt p ''bbox_plate'') then bbox_array (get_prop_opt p ''bbox_plate'')
        else bind_err (get_prop p ''bbox_vehicle'') (\<lambda>bv.
          if js_truthy bv then bbox_array bv
          else Inr (JArr [JNum 0, JNum 0, JNum 0, JNum 0])))
       (\<lambda>bbox. Inr (JObj (fmap_of_list
         [(''bbox'', bbox), (''score'', js_or (get_prop_opt p ''confidence'') (JNum 0)),
          (''class_id'', JNum 0)])))"
    using assms
    by (simp add: plate_detection_def get_prop_not_nullish bind_err_def del: fmap_of_list_simps)
  have e2: "plate_detection p =
      bind_err (Inr ?bb)
       (\<lambda>bbox. Inr (JObj (fmap_of_list
         [(''bbox'', bbox), (''score'', js_or (get_prop_opt p ''confidence'') (JNum 0)),
          (''class_id'', JNum 0)])))"
    by (rule trans [OF e1]) (rule arg_cong2 [of _ _ _ _ bind_err, OF plate_bbox_total [OF assms] refl])
  have e3: "plate_detection p = Inr (JObj (fmap_of_list
         [(''bbox'', ?bb), (''score'', js_or (get_prop_opt p ''confidence'') (JNum 0)),
          (''class_id'', JNum 0)]))"
    by (rule trans [OF e2]) (simp only: bind_err_def sum.case)
  have z: "\<not> js_truthy (get_prop_opt p ''bbox_plate'')
              \<and> \<not> js_truthy (get_prop_opt p ''bbox_vehicle'')
              \<longrightarrow> ?bb = JArr [JNum 0, JNum 0, JNum 0, JNum 0]"
    by simp
  from e3 z show ?thesis by (intro exI [of _ ?bb] conjI)
qed

lemma plate_detection_nullish: "nullish p \<Longrightarrow> plate_detection p = Inl TypeError"
  by (cases p) (simp_all add: plate_detection_def bind_err_def)

lemma plate_detection_entry:
  assumes "plate_detection p = Inr d"
  shows "get_prop_opt d ''class_id'' = JNum 0
       \<and> (\<not> js_truthy (get_prop_opt p ''confidence'') \<longrightarrow> get_prop_opt d ''score'' = JNum 0)
       \<and> (\<not> js_truthy (get_prop_opt p ''bbox_plate'')
            \<and> \<not> js_truthy (get_prop_opt p ''bbox_vehicle'')
            \<longrightarrow> get_prop_opt d ''bbox'' = JArr [JNum 0, JNum 0, JNum 0, JNum 0])"
proof -
  from assms have nn: "\<not> nullish p" by (auto simp: plate_detection_nullish)
  from plate_detection_total [OF nn] assms obtain bbox where
    d: "d = JObj (fmap_of_list
             [(''bbox'', bbox), (''score'', js_or (get_prop_opt p ''confidence'') (JNum 0)),
              (''class_id'', JNum 0)])"
    and z: "\<not> js_truthy (get_prop_opt p ''bbox_plate'')
              \<and> \<not> js_truthy (get_prop_opt p ''bbox_vehicle'')
              \<longrightarrow> bbox = JArr [JNum 0, JNum 0, JNum 0, JNum 0]"
    by auto
  have 1: "get_prop_opt d ''class_id'' = JNum 0"
    unfolding d by (simp add: get_prop_opt_obj)
  have 2: "get_prop_opt d ''score'' = js_or (get_prop_opt p ''confidence'') (JNum 0)"
    unfolding d by (simp add: get_prop_opt_obj)
  have 3: "get_prop_opt d ''bbox'' = bbox"
    unfolding d by (simp add: get_prop_opt_obj)
  from 1 2 3 z show ?thesis by (simp add: js_or_def)
qed

lemma map_err_total:
  "\<forall>x \<in> set xs. \<exists>y. f x = Inr y \<Longrightarrow> \<exists>ys. map_err f xs = Inr ys"
  by (induction xs) (auto simp: bind_err_def)

lemma map_err_all2:
  "map_err f xs = Inr ys \<Longrightarrow> list_all2 (\<lambda>x y. f x = Inr y) xs ys"
  by (induction xs arbitrary: ys) (auto simp: bind_err_def split: sum.splits)


lemma result_detections:
  assumes "fmlookup m ''detections'' = None"
  shows "get_prop_opt (JObj (fmap_of_list
            [(''task'', a), (''count'', b), (''detections'', c), (''storage_url'', d)]
          ++\<^sub>f m)) ''detections'' = c"
proof -
  have "fmlookup (fmap_of_list
            [(''task'', a), (''count'', b), (''detections'', c), (''storage_url'', d)]
          ++\<^sub>f m) ''detections'' = Some c"
    by (simp only: lookup_spread assms option.case base_lookup)
  then show ?thesis by (simp only: get_prop_opt_obj option.case)
qed

lemma inferImage_detections:
  assumes "payload_of r = Some (JObj m)" and "fmlookup m ''detections'' = None"
    and "detections_of t (JObj m) = Inr dets"
  shows "\<exists>res. inferImage e t r = Inr res \<and> get_prop_opt res ''detections'' = dets"
proof -
  have "inferImage e t r = transformedData t (JObj m)"
    using assms(1) by (rule inferImage_of_payload)
  also have "\<dots> = Inr (JObj (fmap_of_list
              [(''task'', get_prop_opt (JObj m) ''task''),
               (''count'', get_prop_opt (JObj m)
                   (if t = vehicle_detect then ''vehicle_count'' else ''plate_count'')),
               (''detections'', dets),
               (''storage_url'', get_prop_opt (JObj m) ''image_url'')]
            ++\<^sub>f m))"
    by (simp only: transformedData_obj assms(3) bind_err_def sum.case)
  finally show ?thesis
    using result_detections [OF assms(2)] by (intro exI conjI) assumption+
qed

lemma plates_branch_array_obj:
  assumes "fmlookup m ''plates'' = Some (JArr ps)"
  shows "plates_branch (JObj m) = bind_err (map_err plate_detection ps) (\<lambda>ys. Inr (JArr ys))"
  using assms by (simp add: plates_branch_def bind_err_def)

lemma detections_of_none:
  assumes "\<not> js_truthy (get_prop_opt (JObj m) ''plates'')"
    and "\<not> js_truthy (get_prop_opt (get_prop_opt (JObj m) ''raw_meta'') ''vehicles'')"
  shows "detections_of t (JObj m) = Inr (JArr [])"
proof -
  have pb: "plates_branch (JObj m) = Inr (JArr [])"
    using assms(1) by (simp add: plates_branch_def get_prop_obj bind_err_def del: get_prop.simps)
  have nul: "nullish rm \<Longrightarrow> get_prop_opt rm k = JUndefined" for rm k
    by (cases rm) (simp_all add: get_prop_opt_def)
  show ?thesis
  proof (cases t)
    case plate_recognize
    then show ?thesis by (simp add: detections_of_def pb)
  next
    case vehicle_detect
    have "\<not> js_truthy (if nullish (get_prop_opt (JObj m) ''raw_meta'') then JUndefined
             else get_prop_opt (get_prop_opt (JObj m) ''raw_meta'') ''vehicles'')"
      using assms(2) by simp
    then show ?thesis
      by (simp add: detections_of_def vehicle_detect get_prop_obj bind_err_def Let_def pb
            del: get_prop.simps)
  qed
qed

text \<open>
  C10, amended: for an \<^verbatim>\<open>ok\<close> response whose body is a JSON object without a
  \<^verbatim>\<open>detections\<close> field of its own: when the task is \<^verbatim>\<open>plate_recognize\<close> and \<^verbatim>\<open>plates\<close> is an
  array without null entries, \<^verbatim>\<open>inferImage\<close> returns, with one detection per plate entry;
  an entry with neither a \<^verbatim>\<open>bbox_plate\<close> nor a \<^verbatim>\<open>bbox_vehicle\<close> (missing or falsy) yields
  the box \<^verbatim>\<open>[0,0,0,0]\<close>, a missing (or falsy) \<^verbatim>\<open>confidence\<close> yields score 0, and every plate
  detection has \<^verbatim>\<open>class_id\<close> 0. When neither \<^verbatim>\<open>raw_meta.vehicles\<close> nor \<^verbatim>\<open>plates\<close> is present
  (or truthy), \<^verbatim>\<open>inferImage\<close> returns with \<^verbatim>\<open>detections\<close> the empty array, for either task.
\<close>

theorem inferImage_plates:
  assumes "payload_of r = Some (JObj m)" and "fmlookup m ''detections'' = None"
  shows "(\<forall>ps. fmlookup m ''plates'' = Some (JArr ps) \<and> (\<forall>p \<in> set ps. \<not> nullish p) \<longrightarrow>
            (\<exists>res ds. inferImage e plate_recognize r = Inr res
               \<and> get_prop_opt res ''detections'' = JArr ds
               \<and> list_all2 (\<lambda>p d.
                    get_prop_opt d ''class_id'' = JNum 0
                    \<and> (\<not> js_truthy (get_prop_opt p ''confidence'')
                         \<longrightarrow> get_prop_opt d ''score'' = JNum 0)
                    \<and> (\<not> js_truthy (get_prop_opt p ''bbox_plate'')
                         \<and> \<not> js_truthy (get_prop_opt p ''bbox_vehicle'')
                         \<longrightarrow> get_prop_opt d ''bbox'' = JArr [JNum 0, JNum 0, JNum 0, JNum 0]))
                  ps ds))
       \<and> (\<not> js_truthy (get_prop_opt (JObj m) ''plates'')
            \<and> \<not> js_truthy (get_prop_opt (get_prop_opt (JObj m) ''raw_meta'') ''vehicles'')
            \<longrightarrow> (\<forall>t. \<exists>res. inferImage e t r = Inr res
                        \<and> get_prop_opt res ''detections'' = JArr []))"
proof (intro conjI allI impI)
  fix ps
  assume a: "fmlookup m ''plates'' = Some (JArr ps) \<and> (\<forall>p \<in> set ps. \<not> nullish p)"
  then have "\<forall>p \<in> set ps. \<exists>d. plate_detection p = Inr d"
    using plate_detection_total by blast
  then obtain ds where ds: "map_err plate_detection ps = Inr ds"
    using map_err_total by blast
  have "detections_of plate_recognize (JObj m) = Inr (JArr ds)"
    using a by (simp add: detections_of_def plates_branch_array_obj ds bind_err_def)
  from inferImage_detections [OF assms this] obtain res where
    res: "inferImage e plate_recognize r = Inr res" "get_prop_opt res ''detections'' = JArr ds"
    by blast
  have "list_all2 (\<lambda>p d. plate_detection p = Inr d) ps ds"
    using ds by (rule map_err_all2)
  then have "list_all2 (\<lambda>p d.
                    get_prop_opt d ''class_id'' = JNum 0
                    \<and> (\<not> js_truthy (get_prop_opt p ''confidence'')
                         \<longrightarrow> get_prop_opt d ''score'' = JNum 0)
                    \<and> (\<not> js_truthy (get_prop_opt p ''bbox_plate'')
                         \<and> \<not> js_truthy (get_prop_opt p ''bbox_vehicle'')
                         \<longrightarrow> get_prop_opt d ''bbox'' = JArr [JNum 0, JNum 0, JNum 0, JNum 0]))
                  ps ds"
    by (rule list_all2_mono) (rule plate_detection_entry)
  with res show "\<exists>res ds. inferImage e plate_recognize r = Inr res
               \<and> get_prop_opt res ''detections'' = JArr ds
               \<and> list_all2 (\<lambda>p d.
                    get_prop_opt d ''class_id'' = JNum 0
                    \<and> (\<not> js_truthy (get_prop_opt p ''confidence'')
                         \<longrightarrow> get_prop_opt d ''score'' = JNum 0)
                    \<and> (\<not> js_truthy (get_prop_opt p ''bbox_plate'')
                         \<and> \<not> js_truthy (get_prop_opt p ''bbox_vehicle'')
                         \<longrightarrow> get_prop_opt d ''bbox'' = JArr [JNum 0, JNum 0, JNum 0, JNum 0]))
                  ps ds"
    by (intro exI conjI)
next
  fix t
  assume "\<not> js_truthy (get_prop_opt (JObj m) ''plates'')
            \<and> \<not> js_truthy (get_prop_opt (get_prop_opt (JObj m) ''raw_meta'') ''vehicles'')"
  then have "detections_of t (JObj m) = Inr (JArr [])"
    by (simp add: detections_of_none)
  from inferImage_detections [OF assms this]
  show "\<exists>res. inferImage e t r = Inr res \<and> get_prop_opt res ''detections'' = JArr []" .
qed


text \<open>
  C10, as stated, begins: the response transformation is total on every backend payload.
  It fails: a vehicle entry without \<^verbatim>\<open>bbox_vehicle\<close> makes \<^verbatim>\<open>v.bbox_vehicle.x1\<close> a read on
  \<^verbatim>\<open>undefined\<close>, and \<^verbatim>\<open>inferImage\<close> throws a \<^verbatim>\<open>TypeError\<close>.
\<close>

theorem inferImage_total_counterexample:
  "inferImage None vehicle_detect
     (ok_json [] (JObj (fmap_of_list
        [(''vehicle_count'', JNum 1),
         (''raw_meta'', JObj (fmap_of_list
            [(''vehicles'', JArr [JObj (fmap_of_list
                [(''confidence'', JNum (9 / 10)), (''class_id'', JNum 2)])])]))])))
   = Inl TypeError"
proof -
  let ?v = "JObj (fmap_of_list [(''confidence'', JNum (9 / 10)), (''class_id'', JNum 2)])"
  let ?m = "fmap_of_list
        [(''vehicle_count'', JNum 1),
         (''raw_meta'', JObj (fmap_of_list [(''vehicles'', JArr [?v])]))]"
  have v: "vehicle_detection ?v = Inl TypeError"
    by (simp add: vehicle_detection_def bbox_array_def bind_err_def)
  have d: "detections_of vehicle_detect (JObj ?m) = Inl TypeError"
    by (simp add: detections_of_def get_prop_opt_def bind_err_def Let_def v fmlookup_of_list
          del: fmap_of_list_simps)
  have "transformedData vehicle_detect (JObj ?m) = Inl TypeError"
    by (simp only: transformedData_def d bind_err_def sum.case)
  then show ?thesis
    by (simp only: inferImage_of_payload [OF payload_of_ok_json])
qed

theorem inferImage_plates_witness:
  "payload_of (ok_json [] (JObj (fmap_of_list
       [(''plate_count'', JNum 1), (''plates'', JArr [JObj (fmap_of_list [(''text'', JStr ''KA01AB1234'')])])])))
     = Some (JObj (fmap_of_list
       [(''plate_count'', JNum 1), (''plates'', JArr [JObj (fmap_of_list [(''text'', JStr ''KA01AB1234'')])])]))
   \<and> fmlookup (fmap_of_list
       [(''plate_count'', JNum 1), (''plates'', JArr [JObj (fmap_of_list [(''text'', JStr ''KA01AB1234'')])])])
       ''detections'' = None
   \<and> (\<exists>res d. inferImage None plate_recognize (ok_json [] (JObj (fmap_of_list
       [(''plate_count'', JNum 1), (''plates'', JArr [JObj (fmap_of_list [(''text'', JStr ''KA01AB1234'')])])])))
         = Inr res
        \<and> get_prop_opt res ''detections'' = JArr [d]
        \<and> get_prop_opt d ''class_id'' = JNum 0
        \<and> get_prop_opt d ''score'' = JNum 0
        \<and> get_prop_opt d ''bbox'' = JArr [JNum 0, JNum 0, JNum 0, JNum 0])"
proof -
  let ?p = "JObj (fmap_of_list [(''text'', JStr ''KA01AB1234'')])"
  let ?m = "fmap_of_list [(''plate_count'', JNum 1), (''plates'', JArr [?p])]"
  let ?r = "ok_json [] (JObj ?m)"
  have a1: "payload_of ?r = Some (JObj ?m)" by (rule payload_of_ok_json)
  have a2: "fmlookup ?m ''detections'' = None" by simp
  have a3: "fmlookup ?m ''plates'' = Some (JArr [?p]) \<and> (\<forall>p \<in> set [?p]. \<not> nullish p)"
    by simp
  have c: "\<not> js_truthy (get_prop_opt ?p ''confidence'')"
    and b: "\<not> js_truthy (get_prop_opt ?p ''bbox_plate'')
          \<and> \<not> js_truthy (get_prop_opt ?p ''bbox_vehicle'')"
    by (simp_all add: get_prop_opt_def)
  from inferImage_plates [OF a1 a2, of None] a3 obtain res ds where
    res: "inferImage None plate_recognize ?r = Inr res"
    and dets: "get_prop_opt res ''detections'' = JArr ds"
    and all: "list_all2 (\<lambda>p d.
                    get_prop_opt d ''class_id'' = JNum 0
                    \<and> (\<not> js_truthy (get_prop_opt p ''confidence'')
                         \<longrightarrow> get_prop_opt d ''score'' = JNum 0)
                    \<and> (\<not> js_truthy (get_prop_opt p ''bbox_plate'')
                         \<and> \<not> js_truthy (get_prop_opt p ''bbox_vehicle'')
                         \<longrightarrow> get_prop_opt d ''bbox'' = JArr [JNum 0, JNum 0, JNum 0, JNum 0]))
                  [?p] ds"
    by blast
  from all obtain d where d: "ds = [d]"
    and pd: "get_prop_opt d ''class_id'' = JNum 0
                    \<and> (\<not> js_truthy (get_prop_opt ?p ''confidence'')
                         \<longrightarrow> get_prop_opt d ''score'' = JNum 0)
                    \<and> (\<not> js_truthy (get_prop_opt ?p ''bbox_plate'')
                         \<and> \<not> js_truthy (get_prop_opt ?p ''bbox_vehicle'')
                         \<longrightarrow> get_prop_opt d ''bbox'' = JArr [JNum 0, JNum 0, JNum 0, JNum 0])"
    by (auto simp: list_all2_Cons1 simp del: fmap_of_list_simps)
  from pd c b have
    "get_prop_opt d ''class_id'' = JNum 0 \<and> get_prop_opt d ''score'' = JNum 0
      \<and> get_prop_opt d ''bbox'' = JArr [JNum 0, JNum 0, JNum 0, JNum 0]"
    by (intro conjI) (erule conjE, (erule conjE)?, (erule (1) impE | assumption)+)+
  with res dets d a1 a2 show ?thesis
    by (intro conjI exI [of _ res] exI [of _ d]) (simp_all only:)
qed


text \<open>
  C3, as stated: for every request the delivered result contains a \<^verbatim>\<open>detections\<close> array, a
  \<^verbatim>\<open>vehicle_count\<close>, a \<^verbatim>\<open>plate_count\<close> and an image URL, and its \<^verbatim>\<open>count\<close> equals
  \<^verbatim>\<open>vehicle_count\<close> for \<^verbatim>\<open>vehicle_detect\<close>. It fails: the spread of the payload comes last
  in \<^verbatim>\<open>transformedData\<close>, so a payload with a \<^verbatim>\<open>count\<close> of 7 and a \<^verbatim>\<open>vehicle_count\<close> of 3
  is delivered with \<^verbatim>\<open>count\<close> 7, and without a \<^verbatim>\<open>plate_count\<close>, which the payload lacks.
\<close>

theorem inferImage_count_counterexample:
  "inferImage None vehicle_detect
       (ok_json [] (JObj (fmap_of_list
          [(''count'', JNum 7), (''vehicle_count'', JNum 3), (''image_url'', JStr ''u'')])))
     = Inr (JObj (fmap_of_list
              [(''task'', JUndefined), (''count'', JNum 3), (''detections'', JArr []),
               (''storage_url'', JStr ''u'')]
            ++\<^sub>f fmap_of_list
              [(''count'', JNum 7), (''vehicle_count'', JNum 3), (''image_url'', JStr ''u'')]))
   \<and> get_prop_opt (JObj (fmap_of_list
              [(''task'', JUndefined), (''count'', JNum 3), (''detections'', JArr []),
               (''storage_url'', JStr ''u'')]
            ++\<^sub>f fmap_of_list
              [(''count'', JNum 7), (''vehicle_count'', JNum 3), (''image_url'', JStr ''u'')]))
        ''count'' = JNum 7
   \<and> get_prop_opt (JObj (fmap_of_list
              [(''task'', JUndefined), (''count'', JNum 3), (''detections'', JArr []),
               (''storage_url'', JStr ''u'')]
            ++\<^sub>f fmap_of_list
              [(''count'', JNum 7), (''vehicle_count'', JNum 3), (''image_url'', JStr ''u'')]))
        ''vehicle_count'' = JNum 3
   \<and> get_prop_opt (JObj (fmap_of_list
              [(''task'', JUndefined), (''count'', JNum 3), (''detections'', JArr []),
               (''storage_url'', JStr ''u'')]
            ++\<^sub>f fmap_of_list
              [(''count'', JNum 7), (''vehicle_count'', JNum 3), (''image_url'', JStr ''u'')]))
        ''plate_count'' = JUndefined"
proof -
  let ?m = "fmap_of_list
          [(''count'', JNum 7), (''vehicle_count'', JNum 3), (''image_url'', JStr ''u'')]"
  let ?b = "fmap_of_list
              [(''task'', JUndefined), (''count'', JNum 3), (''detections'', JArr []),
               (''storage_url'', JStr ''u'')]"
  have d: "detections_of vehicle_detect (JObj ?m) = Inr (JArr [])"
    by (rule detections_of_none) (simp_all add: get_prop_opt_def)
  have g: "get_prop_opt (JObj ?m) ''task'' = JUndefined"
    "get_prop_opt (JObj ?m) ''vehicle_count'' = JNum 3"
    "get_prop_opt (JObj ?m) ''image_url'' = JStr ''u''"
    by (simp_all add: get_prop_opt_def)
  have t: "inferImage None vehicle_detect (ok_json [] (JObj ?m)) = Inr (JObj (?b ++\<^sub>f ?m))"
    by (simp only: inferImage_of_payload [OF payload_of_ok_json] transformedData_obj d
          bind_err_def sum.case g simp_thms if_True)
  have c: "fmlookup (?b ++\<^sub>f ?m) ''count'' = Some (JNum 7)"
    and v: "fmlookup (?b ++\<^sub>f ?m) ''vehicle_count'' = Some (JNum 3)"
    and p: "fmlookup (?b ++\<^sub>f ?m) ''plate_count'' = None"
    by (simp_all add: lookup_spread del: fmlookup_add)
  have gc: "get_prop_opt (JObj (?b ++\<^sub>f ?m)) ''count'' = JNum 7"
    by (simp only: get_prop_opt_obj [of "?b ++\<^sub>f ?m"] c option.case)
  have gv: "get_prop_opt (JObj (?b ++\<^sub>f ?m)) ''vehicle_count'' = JNum 3"
    by (simp only: get_prop_opt_obj [of "?b ++\<^sub>f ?m"] v option.case)
  have gp: "get_prop_opt (JObj (?b ++\<^sub>f ?m)) ''plate_count'' = JUndefined"
    by (simp only: get_prop_opt_obj [of "?b ++\<^sub>f ?m"] p option.case)
  from t gc gv gp show ?thesis by (intro conjI)
qed

theorem inferImage_result_witness:
  "payload_of (ok_json [] (JObj (fmap_of_list
       [(''vehicle_count'', JNum 1), (''plate_count'', JNum 0), (''image_url'', JStr ''u''),
        (''raw_meta'', JObj (fmap_of_list [(''vehicles'', JArr [JObj (fmap_of_list
            [(''bbox_vehicle'', JObj (fmap_of_list
                [(''x1'', JNum 1), (''y1'', JNum 2), (''x2'', JNum 3), (''y2'', JNum 4)])),
             (''confidence'', JNum (9 / 10)), (''class_id'', JNum 2)])])]))])))
     = Some (JObj (fmap_of_list
       [(''vehicle_count'', JNum 1), (''plate_count'', JNum 0), (''image_url'', JStr ''u''),
        (''raw_meta'', JObj (fmap_of_list [(''vehicles'', JArr [JObj (fmap_of_list
            [(''bbox_vehicle'', JObj (fmap_of_list
                [(''x1'', JNum 1), (''y1'', JNum 2), (''x2'', JNum 3), (''y2'', JNum 4)])),
             (''confidence'', JNum (9 / 10)), (''class_id'', JNum 2)])])]))]))
   \<and> (\<exists>res s. inferImage None vehicle_detect (ok_json [] (JObj (fmap_of_list
       [(''vehicle_count'', JNum 1), (''plate_count'', JNum 0), (''image_url'', JStr ''u''),
        (''raw_meta'', JObj (fmap_of_list [(''vehicles'', JArr [JObj (fmap_of_list
            [(''bbox_vehicle'', JObj (fmap_of_list
                [(''x1'', JNum 1), (''y1'', JNum 2), (''x2'', JNum 3), (''y2'', JNum 4)])),
             (''confidence'', JNum (9 / 10)), (''class_id'', JNum 2)])])]))]))) = Inr res
        \<and> res = JObj s
        \<and> fmlookup s ''vehicle_count'' = Some (JNum 1)
        \<and> fmlookup s ''plate_count'' = Some (JNum 0)
        \<and> fmlookup s ''image_url'' = Some (JStr ''u'')
        \<and> (\<exists>ds. fmlookup s ''detections'' = Some (JArr ds))
        \<and> get_prop_opt res ''count'' = get_prop_opt res ''vehicle_count''
        \<and> get_prop_opt res ''storage_url'' = get_prop_opt res ''image_url'')"
proof -
  let ?bb = "JObj (fmap_of_list
                [(''x1'', JNum 1), (''y1'', JNum 2), (''x2'', JNum 3), (''y2'', JNum 4)])"
  let ?v = "JObj (fmap_of_list
            [(''bbox_vehicle'', ?bb), (''confidence'', JNum (9 / 10)), (''class_id'', JNum 2)])"
  let ?m = "fmap_of_list
       [(''vehicle_count'', JNum 1), (''plate_count'', JNum 0), (''image_url'', JStr ''u''),
        (''raw_meta'', JObj (fmap_of_list [(''vehicles'', JArr [?v])]))]"
  let ?r = "ok_json [] (JObj ?m)"
  let ?d = "JObj (fmap_of_list
         [(''bbox'', JArr [JNum 1, JNum 2, JNum 3, JNum 4]), (''score'', JNum (9 / 10)),
          (''class_id'', JNum 2)])"
  have a1: "payload_of ?r = Some (JObj ?m)" by (rule payload_of_ok_json)
  have bb: "bbox_array ?bb = Inr (JArr [JNum 1, JNum 2, JNum 3, JNum 4])"
    by (simp add: bbox_array_def bind_err_def)
  have v: "vehicle_detection ?v = Inr ?d"
    by (simp add: vehicle_detection_def bb bind_err_def fmlookup_of_list
          del: fmap_of_list_simps)
  have d: "detections_of vehicle_detect (JObj ?m) = Inr (JArr [?d])"
    by (simp add: detections_of_def get_prop_opt_def bind_err_def Let_def v fmlookup_of_list
          del: fmap_of_list_simps)
  have nd: "fmlookup ?m ''detections'' = None" and nc: "fmlookup ?m ''count'' = None"
    and ns: "fmlookup ?m ''storage_url'' = None"
    and vc: "fmlookup ?m ''vehicle_count'' = Some (JNum 1)"
    and pc: "fmlookup ?m ''plate_count'' = Some (JNum 0)"
    and iu: "fmlookup ?m ''image_url'' = Some (JStr ''u'')"
    by simp_all
  from inferImage_detections [OF a1 nd d, of None] have
    "\<exists>res. inferImage None vehicle_detect ?r = Inr res
       \<and> get_prop_opt res ''detections'' = JArr [?d]" .
  then obtain res where
    res': "inferImage None vehicle_detect ?r = Inr res
       \<and> get_prop_opt res ''detections'' = JArr [?d]" ..
  then have res: "inferImage None vehicle_detect ?r = Inr res" ..
  from inferImage_result [OF a1 res] obtain s where
    all: "res = JObj s
           \<and> (\<forall>k v. fmlookup ?m k = Some v \<longrightarrow> fmlookup s k = Some v)
           \<and> (fmlookup ?m ''detections'' = None \<longrightarrow> (\<exists>ds. fmlookup s ''detections'' = Some (JArr ds)))
           \<and> (fmlookup ?m ''count'' = None \<longrightarrow>
                get_prop_opt res ''count''
                  = get_prop_opt res (if vehicle_detect = vehicle_detect then ''vehicle_count'' else ''plate_count''))
           \<and> (fmlookup ?m ''storage_url'' = None \<longrightarrow>
                get_prop_opt res ''storage_url'' = get_prop_opt res ''image_url'')" ..
  note s = all [THEN conjunct1]
  note keep = all [THEN conjunct2, THEN conjunct1, rule_format]
  note dets = all [THEN conjunct2, THEN conjunct2, THEN conjunct1, rule_format]
  note cnt = all [THEN conjunct2, THEN conjunct2, THEN conjunct2, THEN conjunct1, rule_format]
  note url = all [THEN conjunct2, THEN conjunct2, THEN conjunct2, THEN conjunct2, rule_format]
  have 1: "fmlookup s ''vehicle_count'' = Some (JNum 1)" using vc by (rule keep)
  have 2: "fmlookup s ''plate_count'' = Some (JNum 0)" using pc by (rule keep)
  have 3: "fmlookup s ''image_url'' = Some (JStr ''u'')" using iu by (rule keep)
  have 4: "\<exists>ds. fmlookup s ''detections'' = Some (JArr ds)" using nd by (rule dets)
  have 5: "get_prop_opt res ''count'' = get_prop_opt res ''vehicle_count''"
    using cnt [OF nc] by (simp only: simp_thms if_True)
  have 6: "get_prop_opt res ''storage_url'' = get_prop_opt res ''image_url''"
    using ns by (rule url)
  from a1 res s 1 2 3 4 5 6 show ?thesis
    by (intro conjI exI [of _ res] exI [of _ s]) (simp_all only:)
qed

section \<open>Properties of the preprocessing geometry\<close>

lemma prepare_scale_nonzero:
  assumes "0 < side" and "0 < w" and "0 < h" and "prepare pol side w h roi = Inr t"
  shows "scale t \<noteq> 0"
proof (cases roi)
  case None
  with assms(4) have "scale t = min (side / w) (side / h)"
    by (auto simp: prepare_def Let_def)
  moreover have "0 < side / w" and "0 < side / h" using assms(1-3) by simp_all
  ultimately show ?thesis by simp
next
  case (Some r)
  let ?c = "clamp_roi w h r"
  from Some assms(4) have a: "area ?c \<noteq> 0"
    by (auto simp: prepare_def Let_def split: if_splits)
  from Some assms(4) a have s: "scale t = min (side / (bx2 ?c - bx1 ?c)) (side / (by2 ?c - by1 ?c))"
    by (auto simp: prepare_def Let_def)
  from a have "bx2 ?c - bx1 ?c \<noteq> 0" and "by2 ?c - by1 ?c \<noteq> 0"
    by (simp_all add: area_def)
  with assms(1) have "side / (bx2 ?c - bx1 ?c) \<noteq> 0" and "side / (by2 ?c - by1 ?c) \<noteq> 0"
    by simp_all
  then show ?thesis unfolding s by (simp add: min_def)
qed

lemma invert_forward: "scale t \<noteq> 0 \<Longrightarrow> invert t (forward t b) = b"
  by (simp add: invert_def forward_def)

lemma forward_invert: "scale t \<noteq> 0 \<Longrightarrow> forward t (invert t b) = b"
  by (simp add: invert_def forward_def)

text \<open>
  C8: for every frame size, region of interest and box (those inside the model input
  among them), the forward mapping followed by its inverse, and the inverse followed by
  the forward mapping, return the original box. Over the reals the two mappings are exact
  inverses of each other, so the box comes back within every tolerance; what makes them
  so is that \<^verbatim>\<open>prepare\<close> never yields a zero scale: a region of zero area is refused as
  \<^verbatim>\<open>InvalidROI\<close>.
\<close>

theorem geometry_round_trip:
  assumes "0 < side" and "0 < w" and "0 < h" and "prepare pol side w h roi = Inr t"
  shows "invert t (forward t b) = b \<and> forward t (invert t b) = b"
  using prepare_scale_nonzero [OF assms] by (simp add: invert_forward forward_invert)

theorem geometry_round_trip_witness:
  "(0::real) < 640 \<and> (0::real) < 1280 \<and> (0::real) < 720
   \<and> prepare CornerPadding 640 1280 720 (Some \<lparr>bx1 = 100, by1 = 100, bx2 = 500, by2 = 500\<rparr>)
       = Inr \<lparr>scale = 8 / 5, padX = 0, padY = 0, roiX = 100, roiY = 100\<rparr>
   \<and> invert \<lparr>scale = 8 / 5, padX = 0, padY = 0, roiX = 100, roiY = 100\<rparr>
        \<lparr>bx1 = 0, by1 = 0, bx2 = 64, by2 = 64\<rparr>
       = \<lparr>bx1 = 100, by1 = 100, bx2 = 140, by2 = 140\<rparr>
   \<and> invert \<lparr>scale = 8 / 5, padX = 0, padY = 0, roiX = 100, roiY = 100\<rparr>
        (forward \<lparr>scale = 8 / 5, padX = 0, padY = 0, roiX = 100, roiY = 100\<rparr>
           \<lparr>bx1 = 120, by1 = 130, bx2 = 300, by2 = 470\<rparr>)
       = \<lparr>bx1 = 120, by1 = 130, bx2 = 300, by2 = 470\<rparr>
   \<and> forward \<lparr>scale = 8 / 5, padX = 0, padY = 0, roiX = 100, roiY = 100\<rparr>
        (invert \<lparr>scale = 8 / 5, padX = 0, padY = 0, roiX = 100, roiY = 100\<rparr>
           \<lparr>bx1 = 0, by1 = 0, bx2 = 64, by2 = 64\<rparr>)
       = \<lparr>bx1 = 0, by1 = 0, bx2 = 64, by2 = 64\<rparr>"
proof -
  let ?t = "\<lparr>scale = 8 / 5, padX = 0, padY = 0, roiX = 100, roiY = 100\<rparr>"
  have p: "prepare CornerPadding 640 1280 720 (Some \<lparr>bx1 = 100, by1 = 100, bx2 = 500, by2 = 500\<rparr>)
       = Inr ?t"
    by (simp add: prepare_def clamp_roi_def area_def Let_def)
  have i: "invert ?t \<lparr>bx1 = 0, by1 = 0, bx2 = 64, by2 = 64\<rparr>
       = \<lparr>bx1 = 100, by1 = 100, bx2 = 140, by2 = 140\<rparr>"
    by (simp add: invert_def)
  have s: "(0::real) < 640" and w: "(0::real) < 1280" and h: "(0::real) < 720" by simp_all
  note rt = geometry_round_trip [OF s w h p]
  from rt [of "\<lparr>bx1 = 120, by1 = 130, bx2 = 300, by2 = 470\<rparr>"]
  have 1: "invert ?t (forward ?t \<lparr>bx1 = 120, by1 = 130, bx2 = 300, by2 = 470\<rparr>)
       = \<lparr>bx1 = 120, by1 = 130, bx2 = 300, by2 = 470\<rparr>" ..
  from rt [of "\<lparr>bx1 = 0, by1 = 0, bx2 = 64, by2 = 64\<rparr>"]
  have 2: "forward ?t (invert ?t \<lparr>bx1 = 0, by1 = 0, bx2 = 64, by2 = 64\<rparr>)
       = \<lparr>bx1 = 0, by1 = 0, bx2 = 64, by2 = 64\<rparr>" ..
  from s w h p i 1 2 show ?thesis by (intro conjI)
qed

end
